theory Spec2Isabelle
  imports Complex_Main "HOL-Library.Word" "HOL-Library.Log_Nat"
begin

section \<open>JavaScript values used by \<^verbatim>\<open>src/App.jsx\<close>\<close>

subsection \<open>Numbers: IEEE 754 binary64 with round-to-nearest, ties-to-even\<close>

text \<open>
  A JavaScript \<^verbatim>\<open>number\<close> is a binary64 value. A finite one is identified with the
  rational it denotes; every arithmetic operator computes the exact rational result and
  rounds it with \<open>fl\<close>: 53 significant bits, ties to the even significand, gradual
  underflow below \<open>2 powi (- 1022)\<close>. \<^verbatim>\<open>NaN\<close>, the infinities and the sign of zero
  are outside the model: on the value ranges of the specification every intermediate
  result of the scores stays below 1024 in magnitude (shown with the range lemmas
  below), and the only divisors are the literals 3, 4 and 10.
\<close>

definition round_ties_even :: "rat \<Rightarrow> int" where
  "round_ties_even q =
     (let n = \<lfloor>q\<rfloor>; r = q - of_int n
      in if r < 1/2 then n else if 1/2 < r then n + 1 else if even n then n else n + 1)"

text \<open>\<open>ilog2 q\<close> is \<open>\<lfloor>log\<^sub>2 q\<rfloor>\<close> for \<open>0 < q\<close>, the binade of \<open>q\<close>.\<close>

definition ilog2 :: "rat \<Rightarrow> int" where
  "ilog2 q = (if 1 \<le> q then bitlen \<lfloor>q\<rfloor> - 1 else - bitlen (\<lceil>1 / q\<rceil> - 1))"

definition ulp :: "rat \<Rightarrow> rat" where
  "ulp q = 2 powi (max (ilog2 \<bar>q\<bar>) (- 1022) - 52)"

definition fl :: "rat \<Rightarrow> rat" where
  "fl q = (if q = 0 then 0 else of_int (round_ties_even (q / ulp q)) * ulp q)"

text \<open>A decimal literal of the source denotes the nearest binary64 value.\<close>

definition lit :: "rat \<Rightarrow> rat" where
  "lit q = fl q"

definition num_add :: "rat \<Rightarrow> rat \<Rightarrow> rat" where
  "num_add a b = fl (a + b)"

definition num_sub :: "rat \<Rightarrow> rat \<Rightarrow> rat" where
  "num_sub a b = fl (a - b)"

definition num_mul :: "rat \<Rightarrow> rat \<Rightarrow> rat" where
  "num_mul a b = fl (a * b)"

text \<open>Division by a nonzero number (a zero divisor would give an infinity or \<^verbatim>\<open>NaN\<close>).\<close>

definition num_div :: "rat \<Rightarrow> rat \<Rightarrow> rat" where
  "num_div a b = fl (a / b)"

definition Math_min :: "rat \<Rightarrow> rat \<Rightarrow> rat" where
  "Math_min a b = min a b"

subsection \<open>Strings: sequences of UTF-16 code units\<close>

type_synonym jsstring = "16 word list"

text \<open>An ASCII literal of the source, as code units.\<close>

definition js :: "string \<Rightarrow> jsstring" where
  "js s = map (\<lambda>c. of_nat (of_char c)) s"

text \<open>
  \<^verbatim>\<open>String.prototype.trim\<close> removes the code units of ECMAScript's WhiteSpace and
  LineTerminator productions from both ends.
\<close>

definition isWhiteSpace :: "16 word \<Rightarrow> bool" where
  "isWhiteSpace c \<longleftrightarrow>
     c = 0x0009 \<or> c = 0x000A \<or> c = 0x000B \<or> c = 0x000C \<or> c = 0x000D \<or> c = 0x0020 \<or>
     c = 0x00A0 \<or> c = 0x1680 \<or> (0x2000 \<le> c \<and> c \<le> 0x200A) \<or> c = 0x2028 \<or> c = 0x2029 \<or>
     c = 0x202F \<or> c = 0x205F \<or> c = 0x3000 \<or> c = 0xFEFF"

definition trim :: "jsstring \<Rightarrow> jsstring" where
  "trim s = rev (dropWhile isWhiteSpace (rev (dropWhile isWhiteSpace s)))"

text \<open>A string is truthy exactly when it is not empty.\<close>

definition truthy :: "jsstring \<Rightarrow> bool" where
  "truthy s \<longleftrightarrow> s \<noteq> []"

text \<open>\<^verbatim>\<open>s.replace('.', '')\<close>: the first full stop is removed.\<close>

fun replace_dot :: "jsstring \<Rightarrow> jsstring" where
  "replace_dot [] = []"
| "replace_dot (c # cs) = (if c = 0x002E then cs else c # replace_dot cs)"

text \<open>
  Case conversion on the letters A to Z; other code units are kept. (The short weekday
  names of the \<^verbatim>\<open>fr-FR\<close> locale, the only strings converted, are ASCII.)
\<close>

definition toLowerCase :: "jsstring \<Rightarrow> jsstring" where
  "toLowerCase s = map (\<lambda>c. if 0x0041 \<le> c \<and> c \<le> 0x005A then c + 0x0020 else c) s"

definition toUpperCase :: "jsstring \<Rightarrow> jsstring" where
  "toUpperCase s = map (\<lambda>c. if 0x0061 \<le> c \<and> c \<le> 0x007A then c - 0x0020 else c) s"

definition charAt0 :: "jsstring \<Rightarrow> jsstring" where
  "charAt0 s = take 1 s"

definition slice1 :: "jsstring \<Rightarrow> jsstring" where
  "slice1 s = drop 1 s"

text \<open>The decimal digits of a natural number, as a template literal prints it.\<close>

function decimal :: "nat \<Rightarrow> jsstring" where
  "decimal n =
     (if n < 10 then [of_nat (48 + n)] else decimal (n div 10) @ [of_nat (48 + n mod 10)])"
  by pat_completeness auto
termination
  by (relation "measure (\<lambda>n. n)") auto

declare decimal.simps [simp del]

subsection \<open>Exceptions\<close>

datatype exn = SyntaxError | SecurityError | QuotaExceededError | TypeError

text \<open>\<^verbatim>\<open>try { body } catch (error) { handler }\<close>, with a thrown exception as \<open>Inl\<close>.\<close>

definition try_catch :: "exn + 'a \<Rightarrow> (exn \<Rightarrow> exn + 'a) \<Rightarrow> exn + 'a" where
  "try_catch body handler = (case body of Inl e \<Rightarrow> handler e | Inr v \<Rightarrow> Inr v)"

section \<open>Data model (lines 14 to 40)\<close>

record RadarState =
  inner :: rat
  peers :: rat
  family :: rat
  media :: rat
  professors :: rat
  fog :: rat

record GoalState =
  title :: jsstring
  date :: jsstring
  carb_cognitive :: jsstring
  carb_physical :: jsstring
  carb_recovery :: jsstring

text \<open>Fields \<^verbatim>\<open>id\<close> and \<^verbatim>\<open>date\<close> of \<^verbatim>\<open>LogEntry\<close> carry a prefix here.\<close>

record LogEntry =
  entry_id :: int
  entry_date :: jsstring
  domain :: jsstring

section \<open>The storage hook \<^verbatim>\<open>useLocalStorage\<close> (lines 43 to 65)\<close>

text \<open>
  The host's \<^verbatim>\<open>window.localStorage\<close> and \<^verbatim>\<open>JSON\<close> are external: \<open>getItem\<close>,
  \<open>setItem\<close>, \<open>parse\<close> and \<open>stringify\<close> are parameters, each returning a value or
  throwing. \<open>getItem key\<close> gives \<open>None\<close> for \<^verbatim>\<open>null\<close>.

  The initialiser of the state: the stored item is parsed when it is a non-empty string;
  \<^verbatim>\<open>null\<close> and the empty string are falsy and give \<open>initialValue\<close>; whatever is thrown
  inside \<^verbatim>\<open>try\<close> is caught and gives \<open>initialValue\<close> as well. (The handler also
  prints the error with \<^verbatim>\<open>console.error\<close>; the console is not part of the state.)
\<close>

definition useLocalStorage_init ::
  "(jsstring \<Rightarrow> exn + jsstring option) \<Rightarrow> (jsstring \<Rightarrow> exn + 'a) \<Rightarrow> jsstring \<Rightarrow> 'a \<Rightarrow> exn + 'a"
where
  "useLocalStorage_init getItem parse key initialValue =
     try_catch
       (case getItem key of
          Inl e \<Rightarrow> Inl e
        | Inr item \<Rightarrow>
            (case item of
               None \<Rightarrow> Inr initialValue
             | Some s \<Rightarrow> if truthy s then parse s else Inr initialValue))
       (\<lambda>error. Inr initialValue)"

text \<open>The argument of the setter: a value, or a function of the previous value.\<close>

datatype 'a SetArg = Value 'a | Updater "'a \<Rightarrow> 'a"

text \<open>
  \<open>setValue\<close> on the pair of the hook's state \<open>storedValue\<close> and the host's storage.
  The state is set before the write; a throwing \<open>stringify\<close> or \<open>setItem\<close> is caught
  and leaves the storage as it was.
\<close>

definition setValue ::
  "('a \<Rightarrow> exn + jsstring) \<Rightarrow> (jsstring \<Rightarrow> jsstring \<Rightarrow> 'st \<Rightarrow> exn + 'st) \<Rightarrow> jsstring \<Rightarrow>
   'a SetArg \<Rightarrow> 'a \<times> 'st \<Rightarrow> 'a \<times> 'st"
where
  "setValue stringify setItem key value s =
     (case s of (storedValue, st) \<Rightarrow>
        let valueToStore = (case value of Updater f \<Rightarrow> f storedValue | Value v \<Rightarrow> v)
        in case stringify valueToStore of
             Inl e \<Rightarrow> (valueToStore, st)
           | Inr text \<Rightarrow>
               (case setItem key text st of
                  Inl e \<Rightarrow> (valueToStore, st)
                | Inr st' \<Rightarrow> (valueToStore, st')))"

section \<open>Fog classification \<^verbatim>\<open>analyzeSignal\<close> (lines 124 to 152)\<close>

record Analysis =
  status :: jsstring
  color :: jsstring
  borderColor :: jsstring
  msg :: jsstring

definition analyzeSignal :: "RadarState \<Rightarrow> Analysis" where
  "analyzeSignal data =
     (if fog data \<le> 30 then
        \<lparr>status = js ''OPTIMAL'',
         color = js ''text-emerald-400'',
         borderColor = js ''border-emerald-500'',
         msg = js ''Visibilit'' @ [0x00E9] @ js '' excellente. Conditions de vol id''
               @ [0x00E9] @ js ''ales.''\<rparr>
      else if fog data \<le> 70 then
        \<lparr>status = js ''INTERM'' @ [0x00C9] @ js ''DIAIRE'',
         color = js ''text-orange-400'',
         borderColor = js ''border-orange-500'',
         msg = js ''Visibilit'' @ [0x00E9] @ js '' r'' @ [0x00E9]
               @ js ''duite. Soyez vigilant aux interf'' @ [0x00E9] @ js ''rences.''\<rparr>
      else
        \<lparr>status = js ''CRITIQUE'',
         color = js ''text-red-500'',
         borderColor = js ''border-red-500'',
         msg = js ''Visibilit'' @ [0x00E9] @ js '' nulle. Arr'' @ [0x00EA]
               @ js ''t imm'' @ [0x00E9] @ js ''diat conseill'' @ [0x00E9] @ js ''.''\<rparr>)"

section \<open>The log: append and clear (lines 318 to 323 and 541 to 565)\<close>

text \<open>What the clock and the locale give at the moment of the call.\<close>

record Clock =
  now_ms :: int
  weekday_short :: jsstring
  day_of_month :: nat

definition formattedDate :: "Clock \<Rightarrow> jsstring" where
  "formattedDate clock =
     (let dayName = weekday_short clock;
          dayNum = day_of_month clock;
          cleanDayName = toLowerCase (replace_dot dayName);
          cleanDayName = toUpperCase (charAt0 cleanDayName) @ slice1 cleanDayName
      in cleanDayName @ js '' '' @ decimal dayNum)"

definition addPlusOneLog ::
  "(LogEntry list \<Rightarrow> exn + jsstring) \<Rightarrow> (jsstring \<Rightarrow> jsstring \<Rightarrow> 'st \<Rightarrow> exn + 'st) \<Rightarrow> Clock \<Rightarrow>
   jsstring \<Rightarrow> LogEntry list \<times> 'st \<Rightarrow> LogEntry list \<times> 'st"
where
  "addPlusOneLog stringify setItem clock domain' s =
     (let newEntry = \<lparr>entry_id = now_ms clock, entry_date = formattedDate clock,
                      domain = domain'\<rparr>
      in setValue stringify setItem (js ''pilot_logs'') (Updater (\<lambda>prev. prev @ [newEntry])) s)"

text \<open>
  \<open>handleAddLog\<close> on the text of the input field \<open>newLog\<close> and the log slice: the entry
  is added, and the field emptied, when the trimmed text is truthy.
\<close>

definition handleAddLog ::
  "(LogEntry list \<Rightarrow> exn + jsstring) \<Rightarrow> (jsstring \<Rightarrow> jsstring \<Rightarrow> 'st \<Rightarrow> exn + 'st) \<Rightarrow> Clock \<Rightarrow>
   jsstring \<times> LogEntry list \<times> 'st \<Rightarrow> jsstring \<times> LogEntry list \<times> 'st"
where
  "handleAddLog stringify setItem clock s =
     (case s of (newLog, logs) \<Rightarrow>
        if truthy (trim newLog)
        then (js [], addPlusOneLog stringify setItem clock newLog logs)
        else (newLog, logs))"

text \<open>\<open>confirmed\<close> is the answer of \<^verbatim>\<open>window.confirm\<close>.\<close>

definition clearLogs ::
  "(LogEntry list \<Rightarrow> exn + jsstring) \<Rightarrow> (jsstring \<Rightarrow> jsstring \<Rightarrow> 'st \<Rightarrow> exn + 'st) \<Rightarrow> bool \<Rightarrow>
   LogEntry list \<times> 'st \<Rightarrow> LogEntry list \<times> 'st"
where
  "clearLogs stringify setItem confirmed s =
     (if confirmed then setValue stringify setItem (js ''pilot_logs'') (Value []) s else s)"

section \<open>The scores \<^verbatim>\<open>calculateMatrix\<close> and the authorization (lines 431 to 500)\<close>

definition externalNoise :: "RadarState \<Rightarrow> rat" where
  "externalNoise radar =
     num_div (num_add (num_add (num_add (peers radar) (media radar)) (family radar))
                (professors radar)) 4"

definition masteryScore :: "RadarState \<Rightarrow> rat" where
  "masteryScore radar =
     num_div
       (num_add
          (num_add (num_mul (inner radar) (lit (5 / 10)))
                   (num_mul (num_sub 100 (fog radar)) (lit (3 / 10))))
          (num_mul (num_sub 100 (externalNoise radar)) (lit (2 / 10))))
       10"

definition carbCount :: "GoalState \<Rightarrow> nat" where
  "carbCount goal =
     length (filter (\<lambda>c. length c > 2) [carb_cognitive goal, carb_physical goal, carb_recovery goal])"

definition goalSet :: "GoalState \<Rightarrow> rat" where
  "goalSet goal = (if length (title goal) > 2 then 1 else 0)"

definition impactScore :: "GoalState \<Rightarrow> rat \<Rightarrow> rat" where
  "impactScore goal logCount =
     num_add
       (num_add
          (num_mul (num_mul (num_div (of_nat (carbCount goal)) 3) 10) (lit (4 / 10)))
          (num_mul (num_mul (goalSet goal) 10) (lit (2 / 10))))
       (num_mul (num_mul (num_div (Math_min logCount 10) 10) 10) (lit (4 / 10)))"

text \<open>
  The object \<^verbatim>\<open>{ x: masteryScore, y: impactScore }\<close> as the pair \<open>(x, y)\<close>. The
  source wraps the computation in \<^verbatim>\<open>useMemo\<close> with the dependencies radar, goal and
  logCount, which keeps the value of the last computation while they are unchanged.
\<close>

definition calculateMatrix :: "RadarState \<Rightarrow> GoalState \<Rightarrow> rat \<Rightarrow> rat \<times> rat" where
  "calculateMatrix radar goal logCount = (masteryScore radar, impactScore goal logCount)"

text \<open>The condition under which the banner of line 495 is rendered.\<close>

definition authorization :: "RadarState \<Rightarrow> GoalState \<Rightarrow> rat \<Rightarrow> bool" where
  "authorization radar goal logCount =
     (case calculateMatrix radar goal logCount of (x, y) \<Rightarrow> x > 7 \<and> y > 7)"

section \<open>The specification's formulas\<close>

text \<open>
  The value range that the specification gives the six fields of \<^verbatim>\<open>RadarState\<close>.
\<close>

definition radar_in_range :: "RadarState \<Rightarrow> bool" where
  "radar_in_range radar \<longleftrightarrow>
     0 \<le> inner radar \<and> inner radar \<le> 100 \<and> 0 \<le> peers radar \<and> peers radar \<le> 100 \<and>
     0 \<le> family radar \<and> family radar \<le> 100 \<and> 0 \<le> media radar \<and> media radar \<le> 100 \<and>
     0 \<le> professors radar \<and> professors radar \<le> 100 \<and> 0 \<le> fog radar \<and> fog radar \<le> 100"

text \<open>
  The formulas of the specification, read in exact rational arithmetic; the definitions
  above are the same formulas as the program evaluates them, in binary64.
\<close>

definition spec_externalNoise :: "RadarState \<Rightarrow> rat" where
  "spec_externalNoise radar = (peers radar + media radar + family radar + professors radar) / 4"

definition spec_masteryScore :: "RadarState \<Rightarrow> rat" where
  "spec_masteryScore radar =
     (inner radar * (5 / 10) + (100 - fog radar) * (3 / 10)
        + (100 - spec_externalNoise radar) * (2 / 10)) / 10"

definition spec_impactFormula :: "nat \<Rightarrow> rat \<Rightarrow> rat \<Rightarrow> rat" where
  "spec_impactFormula count goal_set logCount =
     (of_nat count / 3) * 10 * (4 / 10) + goal_set * 10 * (2 / 10)
       + (min logCount 10 / 10) * 10 * (4 / 10)"

text \<open>The specification counts the anchors by their trimmed length.\<close>

definition spec_carbCount :: "GoalState \<Rightarrow> nat" where
  "spec_carbCount goal =
     length (filter (\<lambda>c. length (trim c) > 2)
       [carb_cognitive goal, carb_physical goal, carb_recovery goal])"

definition spec_goalSet :: "GoalState \<Rightarrow> rat" where
  "spec_goalSet goal = (if length (title goal) > 2 then 1 else 0)"

definition spec_impactScore :: "GoalState \<Rightarrow> rat \<Rightarrow> rat" where
  "spec_impactScore goal logCount =
     spec_impactFormula (spec_carbCount goal) (spec_goalSet goal) logCount"

section \<open>Concrete states\<close>

text \<open>The initial values of the slices (lines 512 to 523).\<close>

definition default_radar :: RadarState where
  "default_radar =
     \<lparr>inner = 30, peers = 90, family = 50, media = 70, professors = 60, fog = 75\<rparr>"

definition default_goal :: GoalState where
  "default_goal =
     \<lparr>title = js [], date = js ''15 Mai'', carb_cognitive = js [], carb_physical = js [],
      carb_recovery = js []\<rparr>"

text \<open>The states of the specification's scenarios.\<close>

definition scenario_radar :: RadarState where
  "scenario_radar =
     \<lparr>inner = 100, peers = 0, family = 0, media = 0, professors = 0, fog = 0\<rparr>"

definition scenario_goal :: GoalState where
  "scenario_goal =
     \<lparr>title = js ''Marathon'', date = js ''15 Mai'', carb_cognitive = js ''Lecture'',
      carb_physical = js ''20 Pompes'', carb_recovery = js ''Sieste 15min''\<rparr>"

text \<open>A radar whose mastery score is 7 exactly.\<close>

definition threshold_radar :: RadarState where
  "threshold_radar =
     \<lparr>inner = 40, peers = 0, family = 0, media = 0, professors = 0, fog = 0\<rparr>"

text \<open>A goal whose first anchor is three spaces.\<close>

definition blank_goal :: GoalState where
  "blank_goal =
     \<lparr>title = js [], date = js ''15 Mai'', carb_cognitive = js ''   '', carb_physical = js [],
      carb_recovery = js []\<rparr>"

definition monday :: Clock where
  "monday = \<lparr>now_ms = 1700000000000, weekday_short = js ''lun.'', day_of_month = 6\<rparr>"

text \<open>
  A host for the examples: the storage is an association list, the serialiser writes the
  entries' texts, and the parser knows the empty array only.
\<close>

type_synonym mem_storage = "(jsstring \<times> jsstring) list"

definition mem_getItem :: "mem_storage \<Rightarrow> jsstring \<Rightarrow> exn + jsstring option" where
  "mem_getItem st key = Inr (map_of st key)"

definition mem_setItem :: "jsstring \<Rightarrow> jsstring \<Rightarrow> mem_storage \<Rightarrow> exn + mem_storage" where
  "mem_setItem key text st = Inr ((key, text) # st)"

definition mem_stringify :: "LogEntry list \<Rightarrow> exn + jsstring" where
  "mem_stringify logs = Inr (js ''['' @ concat (map (\<lambda>e. domain e @ js '','') logs) @ js '']'')"

definition mem_parse :: "jsstring \<Rightarrow> exn + LogEntry list" where
  "mem_parse s = (if s = js ''[]'' then Inr [] else Inl SyntaxError)"

definition older_entry :: LogEntry where
  "older_entry = \<lparr>entry_id = 1699000000000, entry_date = js ''Ven 3'', domain = js ''Lu 10 pages''\<rparr>"

section \<open>Properties of the rounding\<close>

lemma round_ties_even_le: "q \<le> of_int n \<Longrightarrow> round_ties_even q \<le> n"
  unfolding round_ties_even_def Let_def
  by (auto simp: not_less) linarith+

lemma round_ties_even_ge: "of_int n \<le> q \<Longrightarrow> n \<le> round_ties_even q"
  unfolding round_ties_even_def Let_def
  by (auto simp: not_less) linarith+

lemma round_ties_even_cases:
  "round_ties_even q = \<lfloor>q\<rfloor> \<or> round_ties_even q = \<lfloor>q\<rfloor> + 1"
  by (simp add: round_ties_even_def Let_def)

lemma round_ties_even_mono:
  assumes "a \<le> b"
  shows "round_ties_even a \<le> round_ties_even b"
proof (cases "\<lfloor>a\<rfloor> = \<lfloor>b\<rfloor>")
  case True
  with assms show ?thesis
    by (auto simp: round_ties_even_def Let_def)
next
  case False
  with assms have "\<lfloor>a\<rfloor> + 1 \<le> \<lfloor>b\<rfloor>"
    using floor_mono [of a b] by linarith
  moreover have "round_ties_even a \<le> \<lfloor>a\<rfloor> + 1"
    using round_ties_even_cases [of a] by linarith
  moreover have "\<lfloor>b\<rfloor> \<le> round_ties_even b"
    using round_ties_even_cases [of b] by linarith
  ultimately show ?thesis by linarith
qed

lemma round_ties_even_error: "\<bar>of_int (round_ties_even q) - q\<bar> \<le> 1 / 2"
proof -
  have f: "of_int \<lfloor>q\<rfloor> \<le> q" "q < of_int \<lfloor>q\<rfloor> + 1" by linarith+
  show ?thesis
    unfolding round_ties_even_def Let_def
    using f by (auto simp: abs_if; linarith)
qed

lemma ilog2_bounds:
  assumes "0 < q"
  shows "2 powi ilog2 q \<le> q" and "q < 2 powi (ilog2 q + 1)"
proof -
  have "2 powi ilog2 q \<le> q \<and> q < 2 powi (ilog2 q + 1)"
  proof (cases "1 \<le> q")
    case True
    define n where "n = \<lfloor>q\<rfloor>"
    have n: "0 < n" using True by (simp add: n_def)
    have b: "1 \<le> bitlen n" using n bitlen_eq_zero_iff [of n] bitlen_nonneg [of n] by linarith
    have e: "ilog2 q = bitlen n - 1" using True by (simp add: ilog2_def n_def)
    from bitlen_bounds [OF n]
    have lo: "2 ^ nat (bitlen n - 1) \<le> n" and hi: "n + 1 \<le> 2 ^ nat (bitlen n)" by auto
    have "(2::rat) powi (bitlen n - 1) = of_int (2 ^ nat (bitlen n - 1))"
      using b by (simp add: power_int_def)
    also have "\<dots> \<le> of_int n" using lo by (simp only: of_int_le_iff)
    also have "\<dots> \<le> q" by (simp add: n_def)
    finally have 1: "2 powi ilog2 q \<le> q" by (simp add: e)
    have "q < of_int (n + 1)" unfolding n_def by linarith
    also have "\<dots> \<le> of_int (2 ^ nat (bitlen n))" using hi by (simp only: of_int_le_iff)
    also have "\<dots> = (2::rat) powi (bitlen n)" using b by (simp add: power_int_def)
    finally have 2: "q < 2 powi (ilog2 q + 1)" by (simp add: e)
    from 1 2 show ?thesis ..
  next
    case False
    define t where "t = 1 / q"
    define m where "m = \<lceil>t\<rceil> - 1"
    have t: "1 < t" using False assms by (simp add: t_def)
    have q: "q = 1 / t" by (simp add: t_def)
    have m: "0 < m" using t unfolding m_def by linarith
    have b: "1 \<le> bitlen m" using m bitlen_eq_zero_iff [of m] bitlen_nonneg [of m] by linarith
    have e: "ilog2 q = - bitlen m" using False by (simp add: ilog2_def m_def t_def)
    from bitlen_bounds [OF m]
    have lo: "2 ^ nat (bitlen m - 1) \<le> m" and hi: "m + 1 \<le> 2 ^ nat (bitlen m)" by auto
    have "t \<le> of_int (m + 1)" unfolding m_def by simp
    also have "\<dots> \<le> of_int (2 ^ nat (bitlen m))" using hi by (simp only: of_int_le_iff)
    also have "\<dots> = (2::rat) powi (bitlen m)" using b by (simp add: power_int_def)
    finally have "t \<le> 2 powi bitlen m" .
    then have "1 / 2 powi bitlen m \<le> 1 / t"
      using t by (intro divide_left_mono) simp_all
    then have 1: "2 powi ilog2 q \<le> q"
      unfolding e q [symmetric] by (simp add: power_int_minus inverse_eq_divide)
    have "(2::rat) powi (bitlen m - 1) = of_int (2 ^ nat (bitlen m - 1))"
      using b by (simp add: power_int_def)
    also have "\<dots> \<le> of_int m" using lo by (simp only: of_int_le_iff)
    also have "\<dots> < t" unfolding m_def by linarith
    finally have "2 powi (bitlen m - 1) < t" .
    then have "1 / t < 1 / 2 powi (bitlen m - 1)"
      using t by (intro divide_strict_left_mono mult_pos_pos) simp_all
    moreover have "ilog2 q + 1 = - (bitlen m - 1)" by (simp add: e)
    ultimately have 2: "q < 2 powi (ilog2 q + 1)"
      unfolding q [symmetric] by (simp only: power_int_minus inverse_eq_divide)
    from 1 2 show ?thesis ..
  qed
  then show "2 powi ilog2 q \<le> q" and "q < 2 powi (ilog2 q + 1)" by simp_all
qed

lemma ilog2_less:
  assumes "0 < a" "a < 2 powi k"
  shows "ilog2 a < k"
proof -
  have "(2::rat) powi ilog2 a < 2 powi k"
    using ilog2_bounds(1) [OF assms(1)] assms(2) by linarith
  then show ?thesis
    by (rule contrapos_pp) (simp add: not_less power_int_increasing)
qed

lemma ilog2_mono:
  assumes "0 < a" "a \<le> b"
  shows "ilog2 a \<le> ilog2 b"
proof -
  have "0 < b" using assms by simp
  have "a < 2 powi (ilog2 b + 1)"
    using ilog2_bounds(2) [OF \<open>0 < b\<close>] assms(2) by linarith
  then have "ilog2 a < ilog2 b + 1"
    by (rule ilog2_less [OF assms(1)])
  then show ?thesis by simp
qed

lemma ulp_pos: "0 < ulp q"
  by (simp add: ulp_def)

lemma fl_nonneg: "0 \<le> q \<Longrightarrow> 0 \<le> fl q"
  using round_ties_even_ge [of 0 "q / ulp q"] ulp_pos [of q]
  by (simp add: fl_def)

lemma fl_mono_pos:
  assumes "0 < a" "a \<le> b"
  shows "fl a \<le> fl b"
proof -
  have b: "0 < b" using assms by simp
  define ea where "ea = max (ilog2 a) (- 1022)"
  define eb where "eb = max (ilog2 b) (- 1022)"
  have ua: "ulp a = 2 powi (ea - 52)" using assms by (simp add: ulp_def ea_def)
  have ub: "ulp b = 2 powi (eb - 52)" using b by (simp add: ulp_def eb_def)
  have fa: "fl a = of_int (round_ties_even (a / ulp a)) * ulp a" using assms by (simp add: fl_def)
  have fb: "fl b = of_int (round_ties_even (b / ulp b)) * ulp b" using b by (simp add: fl_def)
  have le: "ea \<le> eb" using ilog2_mono [OF assms] by (simp add: ea_def eb_def)
  show ?thesis
  proof (cases "ea = eb")
    case True
    then have u: "ulp a = ulp b" by (simp add: ua ub)
    have "a / ulp b \<le> b / ulp b"
      using assms(2) ulp_pos [of b] by (simp add: divide_right_mono)
    then have "round_ties_even (a / ulp b) \<le> round_ties_even (b / ulp b)"
      by (rule round_ties_even_mono)
    then have "(of_int (round_ties_even (a / ulp b)) :: rat) \<le> of_int (round_ties_even (b / ulp b))"
      by (simp only: of_int_le_iff)
    then show ?thesis
      unfolding fa fb u using ulp_pos [of b] by (simp add: mult_right_mono)
  next
    case False
    with le have lt: "ea + 1 \<le> eb" by simp
    then have eb: "eb = ilog2 b" by (simp add: ea_def eb_def max_def split: if_splits)
    have "a < 2 powi (ilog2 a + 1)" by (rule ilog2_bounds(2) [OF assms(1)])
    also have "\<dots> \<le> 2 powi (ea + 1)" by (rule power_int_increasing) (simp_all add: ea_def)
    finally have a_lt: "a < 2 powi (ea + 1)" .
    have p53: "(2::rat) powi (ea + 1) = of_int (2 ^ 53) * 2 powi (ea - 52)"
      using power_int_add [of "2::rat" 53 "ea - 52"] by (simp add: add.commute)
    have "a / ulp a \<le> of_int (2 ^ 53)"
      using a_lt unfolding p53 ua by (simp add: field_simps)
    then have "round_ties_even (a / ulp a) \<le> 2 ^ 53" by (rule round_ties_even_le)
    then have "(of_int (round_ties_even (a / ulp a)) :: rat) \<le> of_int (2 ^ 53)"
      by (simp only: of_int_le_iff)
    then have "fl a \<le> of_int (2 ^ 53) * ulp a"
      unfolding fa using ulp_pos [of a] by (intro mult_right_mono) simp_all
    then have 1: "fl a \<le> 2 powi (ea + 1)" by (simp only: p53 ua)
    have 2: "(2::rat) powi (ea + 1) \<le> 2 powi eb"
      using lt by (intro power_int_increasing) simp_all
    have p52: "(2::rat) powi eb = of_int (2 ^ 52) * 2 powi (eb - 52)"
      using power_int_add [of "2::rat" 52 "eb - 52"] by simp
    have "2 powi eb \<le> b" unfolding eb by (rule ilog2_bounds(1) [OF b])
    then have "of_int (2 ^ 52) \<le> b / ulp b"
      unfolding ub using p52 by (simp add: field_simps)
    then have "2 ^ 52 \<le> round_ties_even (b / ulp b)" by (rule round_ties_even_ge)
    then have "(of_int (2 ^ 52) :: rat) \<le> of_int (round_ties_even (b / ulp b))"
      by (simp only: of_int_le_iff)
    then have "of_int (2 ^ 52) * ulp b \<le> fl b"
      unfolding fb using ulp_pos [of b] by (intro mult_right_mono) simp_all
    then have 3: "2 powi eb \<le> fl b" by (simp only: p52 ub)
    from 1 2 3 show ?thesis by linarith
  qed
qed

lemma fl_mono:
  assumes "0 \<le> a" "a \<le> b"
  shows "fl a \<le> fl b"
proof (cases "a = 0")
  case True
  then show ?thesis using fl_nonneg [of b] assms by (simp add: fl_def)
next
  case False
  then show ?thesis using fl_mono_pos [of a b] assms by simp
qed

text \<open>The rounding error of a result below 1024 in magnitude is at most \<open>2 powi (- 44)\<close>.\<close>

lemma fl_error:
  assumes "\<bar>q\<bar> < 1024"
  shows "\<bar>fl q - q\<bar> \<le> 1 / 2 ^ 44"
proof (cases "q = 0")
  case True
  then show ?thesis by (simp add: fl_def)
next
  case False
  then have pos: "0 < \<bar>q\<bar>" by simp
  have "\<bar>q\<bar> < 2 powi 10" using assms by simp
  then have "ilog2 \<bar>q\<bar> < 10" by (rule ilog2_less [OF pos])
  then have "max (ilog2 \<bar>q\<bar>) (- 1022) - 52 \<le> - 43" by simp
  then have "ulp q \<le> 2 powi (- 43)"
    unfolding ulp_def by (intro power_int_increasing) simp_all
  then have u: "ulp q \<le> 1 / 2 ^ 43" by (simp add: power_int_minus inverse_eq_divide)
  have "fl q - q = (of_int (round_ties_even (q / ulp q)) - q / ulp q) * ulp q"
    using False ulp_pos [of q] by (simp add: fl_def field_simps)
  then have "\<bar>fl q - q\<bar> = \<bar>of_int (round_ties_even (q / ulp q)) - q / ulp q\<bar> * ulp q"
    using ulp_pos [of q] by (simp add: abs_mult)
  also have "\<dots> \<le> (1 / 2) * ulp q"
    using round_ties_even_error [of "q / ulp q"] ulp_pos [of q]
    by (intro mult_right_mono) simp_all
  also have "\<dots> \<le> (1 / 2) * (1 / 2 ^ 43)"
    using u by (intro mult_left_mono) simp_all
  finally show ?thesis by simp
qed


lemma fl_range:
  assumes "0 \<le> q" "q \<le> c" "fl c = c'"
  shows "0 \<le> fl q \<and> fl q \<le> c'"
  using fl_nonneg [OF assms(1)] fl_mono [OF assms(1,2)] assms(3) by simp

lemma fl_near:
  assumes "\<bar>q\<bar> < 1024"
  shows "q - 1 / 2 ^ 44 \<le> fl q \<and> fl q \<le> q + 1 / 2 ^ 44"
  using fl_error [OF assms] unfolding abs_le_iff by linarith

lemma lit_values:
  "lit (5 / 10) = 1 / 2"
  "lit (3 / 10) = 5404319552844595 / 18014398509481984"
  "lit (2 / 10) = 3602879701896397 / 18014398509481984"
  "lit (4 / 10) = 3602879701896397 / 9007199254740992"
  by code_simp+

lemma fl_values:
  "fl 1 = 1" "fl 2 = 2" "fl 4 = 4" "fl 6 = 6" "fl 10 = 10" "fl 20 = 20" "fl 30 = 30" "fl 50 = 50"
  "fl 80 = 80" "fl 100 = 100" "fl 200 = 200" "fl 300 = 300" "fl 400 = 400"
  "fl (100 * (5404319552844595 / 18014398509481984)) = 30"
  "fl (100 * (3602879701896397 / 18014398509481984)) = 20"
  "fl (10 * (3602879701896397 / 18014398509481984)) = 2"
  "fl (10 * (3602879701896397 / 9007199254740992)) = 4"
  by code_simp+

lemma mastery_analysis:
  assumes "radar_in_range radar"
  shows "0 \<le> masteryScore radar \<and> masteryScore radar \<le> 10 \<and>
         \<bar>masteryScore radar - spec_masteryScore radar\<bar> \<le> 1 / 2 ^ 40"
proof -
  note r = assms [unfolded radar_in_range_def]
  define n1 where "n1 = fl (peers radar + media radar)"
  define n2 where "n2 = fl (n1 + family radar)"
  define n3 where "n3 = fl (n2 + professors radar)"
  define n where "n = fl (n3 / 4)"
  define a where "a = fl (inner radar * (1 / 2))"
  define s where "s = fl (100 - fog radar)"
  define b where "b = fl (s * (5404319552844595 / 18014398509481984))"
  define t where "t = fl (100 - n)"
  define c where "c = fl (t * (3602879701896397 / 18014398509481984))"
  define ab where "ab = fl (a + b)"
  define abc where "abc = fl (ab + c)"
  have noise: "externalNoise radar = n"
    by (simp add: externalNoise_def num_add_def num_div_def n_def n3_def n2_def n1_def)
  have x: "masteryScore radar = fl (abc / 10)"
    by (simp only: masteryScore_def noise num_add_def num_sub_def num_mul_def num_div_def
        lit_values abc_def ab_def c_def t_def b_def s_def a_def)
  have n1: "0 \<le> n1 \<and> n1 \<le> 200"
    unfolding n1_def using r by (intro fl_range [OF _ _ fl_values(11)]) simp_all
  have n2: "0 \<le> n2 \<and> n2 \<le> 300"
    unfolding n2_def using r n1 by (intro fl_range [OF _ _ fl_values(12)]) simp_all
  have n3: "0 \<le> n3 \<and> n3 \<le> 400"
    unfolding n3_def using r n2 by (intro fl_range [OF _ _ fl_values(13)]) simp_all
  have n: "0 \<le> n \<and> n \<le> 100"
    unfolding n_def using n3 by (intro fl_range [OF _ _ fl_values(10)]) simp_all
  have a: "0 \<le> a \<and> a \<le> 50"
    unfolding a_def using r by (intro fl_range [OF _ _ fl_values(8)]) simp_all
  have s: "0 \<le> s \<and> s \<le> 100"
    unfolding s_def using r by (intro fl_range [OF _ _ fl_values(10)]) simp_all
  have b: "0 \<le> b \<and> b \<le> 30"
    unfolding b_def using s by (intro fl_range [OF _ _ fl_values(14)]) simp_all
  have t: "0 \<le> t \<and> t \<le> 100"
    unfolding t_def using n by (intro fl_range [OF _ _ fl_values(10)]) simp_all
  have c: "0 \<le> c \<and> c \<le> 20"
    unfolding c_def using t by (intro fl_range [OF _ _ fl_values(15)]) simp_all
  have ab: "0 \<le> ab \<and> ab \<le> 80"
    unfolding ab_def using a b by (intro fl_range [OF _ _ fl_values(9)]) simp_all
  have abc: "0 \<le> abc \<and> abc \<le> 100"
    unfolding abc_def using ab c by (intro fl_range [OF _ _ fl_values(10)]) simp_all
  have range: "0 \<le> fl (abc / 10) \<and> fl (abc / 10) \<le> 10"
    using abc by (intro fl_range [OF _ _ fl_values(5)]) simp_all
  have e1: "peers radar + media radar - 1 / 2 ^ 44 \<le> n1 \<and> n1 \<le> peers radar + media radar + 1 / 2 ^ 44"
    unfolding n1_def using r by (intro fl_near) (simp add: abs_if)
  have e2: "n1 + family radar - 1 / 2 ^ 44 \<le> n2 \<and> n2 \<le> n1 + family radar + 1 / 2 ^ 44"
    unfolding n2_def using r n1 by (intro fl_near) (simp add: abs_if)
  have e3: "n2 + professors radar - 1 / 2 ^ 44 \<le> n3 \<and> n3 \<le> n2 + professors radar + 1 / 2 ^ 44"
    unfolding n3_def using r n2 by (intro fl_near) (simp add: abs_if)
  have e4: "n3 / 4 - 1 / 2 ^ 44 \<le> n \<and> n \<le> n3 / 4 + 1 / 2 ^ 44"
    unfolding n_def using n3 by (intro fl_near) (simp add: abs_if)
  have e5: "inner radar * (1 / 2) - 1 / 2 ^ 44 \<le> a \<and> a \<le> inner radar * (1 / 2) + 1 / 2 ^ 44"
    unfolding a_def using r by (intro fl_near) (simp add: abs_if)
  have e6: "100 - fog radar - 1 / 2 ^ 44 \<le> s \<and> s \<le> 100 - fog radar + 1 / 2 ^ 44"
    unfolding s_def using r by (intro fl_near) (simp add: abs_if)
  have e7: "s * (5404319552844595 / 18014398509481984) - 1 / 2 ^ 44 \<le> b \<and>
            b \<le> s * (5404319552844595 / 18014398509481984) + 1 / 2 ^ 44"
    unfolding b_def using s by (intro fl_near) (simp add: abs_if)
  have e8: "100 - n - 1 / 2 ^ 44 \<le> t \<and> t \<le> 100 - n + 1 / 2 ^ 44"
    unfolding t_def using n by (intro fl_near) (simp add: abs_if)
  have e9: "t * (3602879701896397 / 18014398509481984) - 1 / 2 ^ 44 \<le> c \<and>
            c \<le> t * (3602879701896397 / 18014398509481984) + 1 / 2 ^ 44"
    unfolding c_def using t by (intro fl_near) (simp add: abs_if)
  have e10: "a + b - 1 / 2 ^ 44 \<le> ab \<and> ab \<le> a + b + 1 / 2 ^ 44"
    unfolding ab_def using a b by (intro fl_near) (simp add: abs_if)
  have e11: "ab + c - 1 / 2 ^ 44 \<le> abc \<and> abc \<le> ab + c + 1 / 2 ^ 44"
    unfolding abc_def using ab c by (intro fl_near) (simp add: abs_if)
  have e12: "abc / 10 - 1 / 2 ^ 44 \<le> fl (abc / 10) \<and> fl (abc / 10) \<le> abc / 10 + 1 / 2 ^ 44"
    using abc by (intro fl_near) (simp add: abs_if)
  define N where "N = (peers radar + media radar + family radar + professors radar) / 4"
  have N: "0 \<le> N \<and> N \<le> 100" unfolding N_def using r by simp
  have F: "0 \<le> fog radar \<and> fog radar \<le> 100" using r by simp
  have d1: "N - 2 / 2 ^ 44 \<le> n \<and> n \<le> N + 2 / 2 ^ 44"
    unfolding N_def using e1 e2 e3 e4 by (simp add: field_simps)
  have d2: "100 - N - 3 / 2 ^ 44 \<le> t \<and> t \<le> 100 - N + 3 / 2 ^ 44"
    using d1 e8 by (simp add: field_simps)
  have d3: "(100 - N) * (2 / 10) - 2 / 2 ^ 44 \<le> c \<and> c \<le> (100 - N) * (2 / 10) + 2 / 2 ^ 44"
    using d2 e9 N by (simp add: field_simps)
  have d4: "(100 - fog radar) * (3 / 10) - 2 / 2 ^ 44 \<le> b \<and>
            b \<le> (100 - fog radar) * (3 / 10) + 2 / 2 ^ 44"
    using e6 e7 F by (simp add: field_simps)
  have d5: "inner radar * (5 / 10) + (100 - fog radar) * (3 / 10) - 4 / 2 ^ 44 \<le> ab \<and>
            ab \<le> inner radar * (5 / 10) + (100 - fog radar) * (3 / 10) + 4 / 2 ^ 44"
    using e5 d4 e10 by (simp add: field_simps)
  have d6: "inner radar * (5 / 10) + (100 - fog radar) * (3 / 10) + (100 - N) * (2 / 10)
              - 7 / 2 ^ 44 \<le> abc \<and>
            abc \<le> inner radar * (5 / 10) + (100 - fog radar) * (3 / 10) + (100 - N) * (2 / 10)
              + 7 / 2 ^ 44"
    using d5 d3 e11 by (simp add: field_simps)
  have sp: "spec_masteryScore radar =
      (inner radar * (5 / 10) + (100 - fog radar) * (3 / 10) + (100 - N) * (2 / 10)) / 10"
    by (simp only: spec_masteryScore_def spec_externalNoise_def N_def)
  have lo: "spec_masteryScore radar - 1 / 2 ^ 40 \<le> fl (abc / 10)"
    unfolding sp using d6 e12 by (simp add: field_simps)
  have hi: "fl (abc / 10) \<le> spec_masteryScore radar + 1 / 2 ^ 40"
    unfolding sp using d6 e12 by (simp add: field_simps)
  from lo hi have "\<bar>fl (abc / 10) - spec_masteryScore radar\<bar> \<le> 1 / 2 ^ 40"
    unfolding abs_le_iff by linarith
  with range show ?thesis unfolding x by simp
qed


lemma carbCount_le: "carbCount goal \<le> 3"
  unfolding carbCount_def
  using length_filter_le [of "\<lambda>c. length c > 2" "[carb_cognitive goal, carb_physical goal, carb_recovery goal]"]
  by simp

lemma goalSet_cases: "goalSet goal = 0 \<or> goalSet goal = 1"
  by (simp add: goalSet_def)

lemma impact_analysis:
  assumes "0 \<le> logCount"
  shows "0 \<le> impactScore goal logCount \<and> impactScore goal logCount \<le> 10 \<and>
         \<bar>impactScore goal logCount
            - spec_impactFormula (carbCount goal) (goalSet goal) logCount\<bar> \<le> 1 / 2 ^ 40"
proof -
  define k :: rat where "k = of_nat (carbCount goal)"
  define g where "g = goalSet goal"
  define mn where "mn = min logCount 10"
  define q1 where "q1 = fl (k / 3)"
  define m1 where "m1 = fl (q1 * 10)"
  define A where "A = fl (m1 * (3602879701896397 / 9007199254740992))"
  define g1 where "g1 = fl (g * 10)"
  define B where "B = fl (g1 * (3602879701896397 / 18014398509481984))"
  define d1 where "d1 = fl (mn / 10)"
  define d2 where "d2 = fl (d1 * 10)"
  define C where "C = fl (d2 * (3602879701896397 / 9007199254740992))"
  define AB where "AB = fl (A + B)"
  have y: "impactScore goal logCount = fl (AB + C)"
    by (simp only: impactScore_def num_add_def num_mul_def num_div_def Math_min_def lit_values
        AB_def C_def d2_def d1_def B_def g1_def A_def m1_def q1_def mn_def g_def k_def)
  have k: "0 \<le> k \<and> k \<le> 3"
    unfolding k_def using carbCount_le [of goal] by simp
  have g: "0 \<le> g \<and> g \<le> 1"
    unfolding g_def using goalSet_cases [of goal] by auto
  have mn: "0 \<le> mn \<and> mn \<le> 10"
    unfolding mn_def using assms by simp
  have q1: "0 \<le> q1 \<and> q1 \<le> 1"
    unfolding q1_def using k by (intro fl_range [OF _ _ fl_values(1)]) simp_all
  have m1: "0 \<le> m1 \<and> m1 \<le> 10"
    unfolding m1_def using q1 by (intro fl_range [OF _ _ fl_values(5)]) simp_all
  have A: "0 \<le> A \<and> A \<le> 4"
    unfolding A_def using m1 by (intro fl_range [OF _ _ fl_values(17)]) simp_all
  have g1: "0 \<le> g1 \<and> g1 \<le> 10"
    unfolding g1_def using g by (intro fl_range [OF _ _ fl_values(5)]) simp_all
  have B: "0 \<le> B \<and> B \<le> 2"
    unfolding B_def using g1 by (intro fl_range [OF _ _ fl_values(16)]) simp_all
  have d1: "0 \<le> d1 \<and> d1 \<le> 1"
    unfolding d1_def using mn by (intro fl_range [OF _ _ fl_values(1)]) simp_all
  have d2: "0 \<le> d2 \<and> d2 \<le> 10"
    unfolding d2_def using d1 by (intro fl_range [OF _ _ fl_values(5)]) simp_all
  have C: "0 \<le> C \<and> C \<le> 4"
    unfolding C_def using d2 by (intro fl_range [OF _ _ fl_values(17)]) simp_all
  have AB: "0 \<le> AB \<and> AB \<le> 6"
    unfolding AB_def using A B by (intro fl_range [OF _ _ fl_values(4)]) simp_all
  have range: "0 \<le> fl (AB + C) \<and> fl (AB + C) \<le> 10"
    using AB C by (intro fl_range [OF _ _ fl_values(5)]) simp_all
  have e1: "k / 3 - 1 / 2 ^ 44 \<le> q1 \<and> q1 \<le> k / 3 + 1 / 2 ^ 44"
    unfolding q1_def using k by (intro fl_near) (simp add: abs_if)
  have e2: "q1 * 10 - 1 / 2 ^ 44 \<le> m1 \<and> m1 \<le> q1 * 10 + 1 / 2 ^ 44"
    unfolding m1_def using q1 by (intro fl_near) (simp add: abs_if)
  have e3: "m1 * (3602879701896397 / 9007199254740992) - 1 / 2 ^ 44 \<le> A \<and>
            A \<le> m1 * (3602879701896397 / 9007199254740992) + 1 / 2 ^ 44"
    unfolding A_def using m1 by (intro fl_near) (simp add: abs_if)
  have e4: "g * 10 - 1 / 2 ^ 44 \<le> g1 \<and> g1 \<le> g * 10 + 1 / 2 ^ 44"
    unfolding g1_def using g by (intro fl_near) (simp add: abs_if)
  have e5: "g1 * (3602879701896397 / 18014398509481984) - 1 / 2 ^ 44 \<le> B \<and>
            B \<le> g1 * (3602879701896397 / 18014398509481984) + 1 / 2 ^ 44"
    unfolding B_def using g1 by (intro fl_near) (simp add: abs_if)
  have e6: "mn / 10 - 1 / 2 ^ 44 \<le> d1 \<and> d1 \<le> mn / 10 + 1 / 2 ^ 44"
    unfolding d1_def using mn by (intro fl_near) (simp add: abs_if)
  have e7: "d1 * 10 - 1 / 2 ^ 44 \<le> d2 \<and> d2 \<le> d1 * 10 + 1 / 2 ^ 44"
    unfolding d2_def using d1 by (intro fl_near) (simp add: abs_if)
  have e8: "d2 * (3602879701896397 / 9007199254740992) - 1 / 2 ^ 44 \<le> C \<and>
            C \<le> d2 * (3602879701896397 / 9007199254740992) + 1 / 2 ^ 44"
    unfolding C_def using d2 by (intro fl_near) (simp add: abs_if)
  have e9: "A + B - 1 / 2 ^ 44 \<le> AB \<and> AB \<le> A + B + 1 / 2 ^ 44"
    unfolding AB_def using A B by (intro fl_near) (simp add: abs_if)
  have e10: "AB + C - 1 / 2 ^ 44 \<le> fl (AB + C) \<and> fl (AB + C) \<le> AB + C + 1 / 2 ^ 44"
    using AB C by (intro fl_near) (simp add: abs_if)
  have t1: "k / 3 * 10 - 11 / 2 ^ 44 \<le> m1 \<and> m1 \<le> k / 3 * 10 + 11 / 2 ^ 44"
    using e1 e2 by (simp add: field_simps)
  have t2: "k / 3 * 10 * (4 / 10) - 6 / 2 ^ 44 \<le> A \<and> A \<le> k / 3 * 10 * (4 / 10) + 6 / 2 ^ 44"
    using t1 e3 k by (simp add: field_simps)
  have t3: "g * 10 * (2 / 10) - 2 / 2 ^ 44 \<le> B \<and> B \<le> g * 10 * (2 / 10) + 2 / 2 ^ 44"
    using e4 e5 g by (simp add: field_simps)
  have t4: "mn / 10 * 10 - 11 / 2 ^ 44 \<le> d2 \<and> d2 \<le> mn / 10 * 10 + 11 / 2 ^ 44"
    using e6 e7 by (simp add: field_simps)
  have t5: "mn / 10 * 10 * (4 / 10) - 6 / 2 ^ 44 \<le> C \<and> C \<le> mn / 10 * 10 * (4 / 10) + 6 / 2 ^ 44"
    using t4 e8 mn by (simp add: field_simps)
  have t6: "k / 3 * 10 * (4 / 10) + g * 10 * (2 / 10) - 9 / 2 ^ 44 \<le> AB \<and>
            AB \<le> k / 3 * 10 * (4 / 10) + g * 10 * (2 / 10) + 9 / 2 ^ 44"
    using t2 t3 e9 by (simp add: field_simps)
  have sp: "spec_impactFormula (carbCount goal) (goalSet goal) logCount =
      k / 3 * 10 * (4 / 10) + g * 10 * (2 / 10) + mn / 10 * 10 * (4 / 10)"
    by (simp only: spec_impactFormula_def k_def g_def mn_def)
  have lo: "spec_impactFormula (carbCount goal) (goalSet goal) logCount - 1 / 2 ^ 40 \<le> fl (AB + C)"
    unfolding sp using t6 t5 e10 by (simp add: field_simps)
  have hi: "fl (AB + C) \<le> spec_impactFormula (carbCount goal) (goalSet goal) logCount + 1 / 2 ^ 40"
    unfolding sp using t6 t5 e10 by (simp add: field_simps)
  from lo hi
  have "\<bar>fl (AB + C) - spec_impactFormula (carbCount goal) (goalSet goal) logCount\<bar> \<le> 1 / 2 ^ 40"
    unfolding abs_le_iff by linarith
  with range show ?thesis unfolding y by simp
qed


section \<open>The claims\<close>

text \<open>
  Claim C1. For every RadarState whose six fields lie in [0,100], the mastery score (the
  \<open>x\<close> of \<open>calculateMatrix\<close>) is
  \<open>(inner*0.5 + (100-fog)*0.3 + (100-externalNoise)*0.2)/10\<close> with \<open>externalNoise\<close> the
  mean of peers, media, family and professors: it is that expression as binary64
  arithmetic evaluates it, it differs from the expression's exact value by at most
  \<open>2 powi (- 40)\<close>, and for inner = 100 and the other five fields 0 it is 10 exactly.
\<close>

theorem mastery_score_formula:
  assumes "radar_in_range radar"
  shows "fst (calculateMatrix radar goal logCount) =
           (let noise = num_div (num_add (num_add (num_add (peers radar) (media radar))
                                   (family radar)) (professors radar)) 4
            in num_div
                 (num_add
                    (num_add (num_mul (inner radar) (lit (5 / 10)))
                             (num_mul (num_sub 100 (fog radar)) (lit (3 / 10))))
                    (num_mul (num_sub 100 noise) (lit (2 / 10))))
                 10)
         \<and> \<bar>fst (calculateMatrix radar goal logCount) - spec_masteryScore radar\<bar> \<le> 1 / 2 ^ 40
         \<and> fst (calculateMatrix scenario_radar goal logCount) = 10"
proof -
  have 1: "masteryScore scenario_radar = 10"
    by code_simp
  have 2: "\<bar>masteryScore radar - spec_masteryScore radar\<bar> \<le> 1 / 2 ^ 40"
    using mastery_analysis [OF assms] by simp
  show ?thesis
    using 1 2 by (simp add: calculateMatrix_def masteryScore_def externalNoise_def Let_def)
qed

text \<open>The initial radar of the application satisfies the hypothesis of C1.\<close>

theorem mastery_score_formula_witness:
  "radar_in_range default_radar
   \<and> \<bar>fst (calculateMatrix default_radar default_goal 0) - spec_masteryScore default_radar\<bar>
       \<le> 1 / 2 ^ 40
   \<and> fst (calculateMatrix default_radar default_goal 0) = 6530219459687219 / 2251799813685248
   \<and> spec_masteryScore default_radar = 29 / 10
   \<and> fst (calculateMatrix scenario_radar default_goal 0) = 10"
proof -
  have h: "radar_in_range default_radar"
    by (simp add: radar_in_range_def default_radar_def)
  have v: "masteryScore default_radar = 6530219459687219 / 2251799813685248"
    by code_simp
  have s: "spec_masteryScore default_radar = 29 / 10"
    by (simp add: spec_masteryScore_def spec_externalNoise_def default_radar_def)
  show ?thesis
    using mastery_score_formula [OF h, of default_goal 0] h v s
    by (simp add: calculateMatrix_def)
qed

text \<open>
  Claim C2 as stated counts the anchors by their trimmed length. The program does not
  trim: an anchor of three spaces is counted, and the impact score of such a goal is
  about 1.33 where the claim's formula gives 0.
\<close>

theorem impact_score_trimmed_counterexample:
  "carbCount blank_goal = 1 \<and> spec_carbCount blank_goal = 0
   \<and> snd (calculateMatrix default_radar blank_goal 0) = 6004799503160661 / 4503599627370496
   \<and> spec_impactScore blank_goal 0 = 0
   \<and> snd (calculateMatrix default_radar blank_goal 0) \<noteq> spec_impactScore blank_goal 0"
proof -
  have 1: "carbCount blank_goal = 1" by code_simp
  have 2: "spec_carbCount blank_goal = 0" by code_simp
  have 3: "impactScore blank_goal 0 = 6004799503160661 / 4503599627370496" by code_simp
  have 4: "spec_impactScore blank_goal 0 = 0"
    unfolding spec_impactScore_def 2
    by (simp add: spec_impactFormula_def spec_goalSet_def blank_goal_def js_def)
  show ?thesis using 1 2 3 4 by (simp add: calculateMatrix_def)
qed

text \<open>
  Claim C2, amended. For every GoalState and log count, the impact score (the \<open>y\<close> of
  \<open>calculateMatrix\<close>) is
  \<open>(carbCount/3)*10*0.4 + goalSet*10*0.2 + (min(logCount,10)/10)*10*0.4\<close>, where
  \<open>carbCount\<close> is the number of the three fields carb_cognitive, carb_physical and
  carb_recovery whose length, untrimmed, exceeds 2, and \<open>goalSet\<close> is 1 exactly when the
  title's length exceeds 2, else 0: it is that expression as binary64 arithmetic
  evaluates it, for a log count of at least 0 it differs from the expression's exact
  value by at most \<open>2 powi (- 40)\<close>, and with all four texts longer than 2 and a log
  count of 10 it is 10 exactly.
\<close>

theorem impact_score_formula:
  "carbCount goal =
     (if length (carb_cognitive goal) > 2 then 1 else 0)
     + (if length (carb_physical goal) > 2 then 1 else 0)
     + (if length (carb_recovery goal) > 2 then 1 else 0)
   \<and> goalSet goal = (if length (title goal) > 2 then 1 else 0)
   \<and> snd (calculateMatrix radar goal logCount) =
       num_add
         (num_add
            (num_mul (num_mul (num_div (of_nat (carbCount goal)) 3) 10) (lit (4 / 10)))
            (num_mul (num_mul (goalSet goal) 10) (lit (2 / 10))))
         (num_mul (num_mul (num_div (Math_min logCount 10) 10) 10) (lit (4 / 10)))
   \<and> (0 \<le> logCount \<longrightarrow>
        \<bar>snd (calculateMatrix radar goal logCount)
           - spec_impactFormula (carbCount goal) (goalSet goal) logCount\<bar> \<le> 1 / 2 ^ 40)
   \<and> (length (carb_cognitive goal) > 2 \<and> length (carb_physical goal) > 2
        \<and> length (carb_recovery goal) > 2 \<and> length (title goal) > 2 \<longrightarrow>
        snd (calculateMatrix radar goal 10) = 10)"
proof -
  have 1: "carbCount goal =
     (if length (carb_cognitive goal) > 2 then 1 else 0)
     + (if length (carb_physical goal) > 2 then 1 else 0)
     + (if length (carb_recovery goal) > 2 then 1 else 0)"
    by (simp add: carbCount_def)
  have 2: "goalSet goal = (if length (title goal) > 2 then 1 else 0)"
    by (simp add: goalSet_def)
  have 3: "snd (calculateMatrix radar goal logCount) =
       num_add
         (num_add
            (num_mul (num_mul (num_div (of_nat (carbCount goal)) 3) 10) (lit (4 / 10)))
            (num_mul (num_mul (goalSet goal) 10) (lit (2 / 10))))
         (num_mul (num_mul (num_div (Math_min logCount 10) 10) 10) (lit (4 / 10)))"
    by (simp only: calculateMatrix_def impactScore_def snd_conv)
  have 4: "\<bar>snd (calculateMatrix radar goal logCount)
           - spec_impactFormula (carbCount goal) (goalSet goal) logCount\<bar> \<le> 1 / 2 ^ 40"
    if "0 \<le> logCount"
    using impact_analysis [OF that, of goal] by (simp add: calculateMatrix_def)
  have full: "num_add
         (num_add
            (num_mul (num_mul (num_div (of_nat 3) 3) 10) (lit (4 / 10)))
            (num_mul (num_mul 1 10) (lit (2 / 10))))
         (num_mul (num_mul (num_div (Math_min 10 10) 10) 10) (lit (4 / 10))) = 10"
    by code_simp
  have 5: "snd (calculateMatrix radar goal 10) = 10"
    if "length (carb_cognitive goal) > 2 \<and> length (carb_physical goal) > 2
        \<and> length (carb_recovery goal) > 2 \<and> length (title goal) > 2"
  proof -
    have c: "carbCount goal = 3" using that by (simp add: 1)
    have g: "goalSet goal = 1" using that by (simp add: 2)
    show ?thesis
      by (simp only: calculateMatrix_def impactScore_def snd_conv c g full)
  qed
  from 1 2 3 4 5 show ?thesis by blast
qed

text \<open>
  The goal of the scenario, with a log count of 10, satisfies the hypotheses of C2.
\<close>

theorem impact_score_formula_witness:
  "0 \<le> (10::rat)
   \<and> length (carb_cognitive scenario_goal) > 2 \<and> length (carb_physical scenario_goal) > 2
   \<and> length (carb_recovery scenario_goal) > 2 \<and> length (title scenario_goal) > 2
   \<and> carbCount scenario_goal = 3 \<and> goalSet scenario_goal = 1
   \<and> spec_impactFormula (carbCount scenario_goal) (goalSet scenario_goal) 10 = 10
   \<and> snd (calculateMatrix scenario_radar scenario_goal 10) = 10"
proof -
  have l: "length (carb_cognitive scenario_goal) > 2 \<and> length (carb_physical scenario_goal) > 2
    \<and> length (carb_recovery scenario_goal) > 2 \<and> length (title scenario_goal) > 2"
    by (simp add: scenario_goal_def js_def)
  have c: "carbCount scenario_goal = 3" "goalSet scenario_goal = 1"
    using l by (simp_all add: carbCount_def goalSet_def)
  have s: "spec_impactFormula (carbCount scenario_goal) (goalSet scenario_goal) 10 = 10"
    by (simp add: c spec_impactFormula_def)
  show ?thesis
    using impact_score_formula [of scenario_goal scenario_radar 10] l c s by simp
qed

text \<open>
  Claim C3. For every fog value, so also for every one in [0,100], the classification is
  OPTIMAL exactly when fog is at most 30, INTERMEDIAIRE (the program's word for the
  specification's INTERMEDIATE) exactly when fog is above 30 and at most 70, and CRITIQUE
  (CRITICAL) exactly when fog is above 70. The three words differ, so the bands exclude
  one another and cover every value; fog 30 gives OPTIMAL, 31 and 70 give INTERMEDIAIRE
  and 71 gives CRITIQUE.
\<close>

theorem fog_classification:
  "(status (analyzeSignal data) = js ''OPTIMAL'' \<longleftrightarrow> fog data \<le> 30)
   \<and> (status (analyzeSignal data) = js ''INTERM'' @ [0x00C9] @ js ''DIAIRE''
        \<longleftrightarrow> 30 < fog data \<and> fog data \<le> 70)
   \<and> (status (analyzeSignal data) = js ''CRITIQUE'' \<longleftrightarrow> 70 < fog data)
   \<and> (status (analyzeSignal data) = js ''OPTIMAL''
        \<or> status (analyzeSignal data) = js ''INTERM'' @ [0x00C9] @ js ''DIAIRE''
        \<or> status (analyzeSignal data) = js ''CRITIQUE'')
   \<and> js ''OPTIMAL'' \<noteq> js ''INTERM'' @ [0x00C9] @ js ''DIAIRE''
   \<and> js ''OPTIMAL'' \<noteq> js ''CRITIQUE''
   \<and> js ''INTERM'' @ [0x00C9] @ js ''DIAIRE'' \<noteq> js ''CRITIQUE''
   \<and> status (analyzeSignal (data\<lparr>fog := 30\<rparr>)) = js ''OPTIMAL''
   \<and> status (analyzeSignal (data\<lparr>fog := 31\<rparr>)) = js ''INTERM'' @ [0x00C9] @ js ''DIAIRE''
   \<and> status (analyzeSignal (data\<lparr>fog := 70\<rparr>)) = js ''INTERM'' @ [0x00C9] @ js ''DIAIRE''
   \<and> status (analyzeSignal (data\<lparr>fog := 71\<rparr>)) = js ''CRITIQUE''"
  by (simp add: analyzeSignal_def js_def)

text \<open>
  The initial radar (fog 75) is CRITIQUE, the radar of the scenario (fog 0) OPTIMAL.
\<close>

theorem fog_classification_witness:
  "status (analyzeSignal default_radar) = js ''CRITIQUE'' \<and> 70 < fog default_radar
   \<and> status (analyzeSignal scenario_radar) = js ''OPTIMAL'' \<and> fog scenario_radar \<le> 30"
  using fog_classification [of default_radar] fog_classification [of scenario_radar]
  by (simp add: default_radar_def scenario_radar_def)

text \<open>
  Claim C4. For every state the authorization banner is shown if and only if the mastery
  score and the impact score both exceed 7 strictly. Scores of 10 and 10 give true, as
  the scenario's state has them; a mastery score of 7 exactly gives false, as the radar
  with inner = 40 and the other fields 0 has it.
\<close>

theorem authorization_threshold:
  "(authorization radar goal logCount \<longleftrightarrow>
      fst (calculateMatrix radar goal logCount) > 7 \<and> snd (calculateMatrix radar goal logCount) > 7)
   \<and> (fst (calculateMatrix radar goal logCount) = 10 \<and> snd (calculateMatrix radar goal logCount) = 10
        \<longrightarrow> authorization radar goal logCount)
   \<and> (fst (calculateMatrix radar goal logCount) = 7 \<longrightarrow> \<not> authorization radar goal logCount)
   \<and> calculateMatrix scenario_radar scenario_goal 10 = (10, 10)
   \<and> authorization scenario_radar scenario_goal 10
   \<and> calculateMatrix threshold_radar scenario_goal 10 = (7, 10)
   \<and> \<not> authorization threshold_radar scenario_goal 10"
proof -
  have 1: "masteryScore scenario_radar = 10" by code_simp
  have 2: "impactScore scenario_goal 10 = 10" by code_simp
  have 3: "masteryScore threshold_radar = 7" by code_simp
  show ?thesis
    by (simp add: authorization_def calculateMatrix_def 1 2 3)
qed

text \<open>
  The two states that C4 names: the mastery score 7 and the scores 10 and 10.
\<close>

theorem authorization_threshold_witness:
  "fst (calculateMatrix threshold_radar scenario_goal 10) = 7
   \<and> \<not> authorization threshold_radar scenario_goal 10
   \<and> fst (calculateMatrix scenario_radar scenario_goal 10) = 10
   \<and> snd (calculateMatrix scenario_radar scenario_goal 10) = 10
   \<and> authorization scenario_radar scenario_goal 10"
  using authorization_threshold [of threshold_radar scenario_goal 10]
    authorization_threshold [of scenario_radar scenario_goal 10]
  by simp

text \<open>
  Claim C5. For every log count of at least 10, radar and goal fixed, the impact score is
  the impact score at log count 10: the log-count term is the same as at 10, namely 4.
\<close>

theorem log_count_saturation:
  assumes "10 \<le> logCount"
  shows "snd (calculateMatrix radar goal logCount) = snd (calculateMatrix radar goal 10)
         \<and> num_mul (num_mul (num_div (Math_min logCount 10) 10) 10) (lit (4 / 10))
             = num_mul (num_mul (num_div (Math_min 10 10) 10) 10) (lit (4 / 10))
         \<and> num_mul (num_mul (num_div (Math_min logCount 10) 10) 10) (lit (4 / 10)) = 4"
proof -
  have m: "Math_min logCount 10 = 10" using assms by (simp add: Math_min_def)
  have m': "Math_min 10 10 = 10" by (simp add: Math_min_def)
  have t: "num_mul (num_mul (num_div 10 10) 10) (lit (4 / 10)) = 4" by code_simp
  show ?thesis
    by (simp only: calculateMatrix_def impactScore_def snd_conv m m' t simp_thms)
qed

text \<open>
  A log count of 1000 gives the impact score and the log-count term of a log count of 10.
\<close>

theorem log_count_saturation_witness:
  "(10::rat) \<le> 1000
   \<and> snd (calculateMatrix default_radar scenario_goal 1000)
       = snd (calculateMatrix default_radar scenario_goal 10)
   \<and> num_mul (num_mul (num_div (Math_min 1000 10) 10) 10) (lit (4 / 10))
       = num_mul (num_mul (num_div (Math_min 10 10) 10) 10) (lit (4 / 10))"
proof -
  have h: "(10::rat) \<le> 1000" by simp
  show ?thesis
    using log_count_saturation [OF h, of default_radar scenario_goal] h by simp
qed

text \<open>
  Claim C7. For every RadarState whose six fields lie in [0,100], every GoalState and
  every log count of at least 0, both scores lie in [0,10]; and the pair of scores is a
  function of radar, goal and log count: equal inputs give equal pairs.
\<close>

theorem scores_in_range:
  assumes "radar_in_range radar" and "0 \<le> logCount"
  shows "0 \<le> fst (calculateMatrix radar goal logCount)
         \<and> fst (calculateMatrix radar goal logCount) \<le> 10
         \<and> 0 \<le> snd (calculateMatrix radar goal logCount)
         \<and> snd (calculateMatrix radar goal logCount) \<le> 10
         \<and> (\<forall>radar' goal' logCount'.
               radar' = radar \<and> goal' = goal \<and> logCount' = logCount \<longrightarrow>
               calculateMatrix radar' goal' logCount' = calculateMatrix radar goal logCount)"
  using mastery_analysis [OF assms(1)] impact_analysis [OF assms(2), of goal]
  by (simp add: calculateMatrix_def)

text \<open>
  The initial radar, the scenario's goal and a log count of 3 satisfy the hypotheses of C7.
\<close>

theorem scores_in_range_witness:
  "radar_in_range default_radar \<and> (0::rat) \<le> 3
   \<and> 0 \<le> fst (calculateMatrix default_radar scenario_goal 3)
   \<and> fst (calculateMatrix default_radar scenario_goal 3) \<le> 10
   \<and> 0 \<le> snd (calculateMatrix default_radar scenario_goal 3)
   \<and> snd (calculateMatrix default_radar scenario_goal 3) \<le> 10"
proof -
  have h: "radar_in_range default_radar"
    by (simp add: radar_in_range_def default_radar_def)
  have l: "(0::rat) \<le> 3" by simp
  show ?thesis
    using scores_in_range [OF h l, of scenario_goal] h by simp
qed

text \<open>
  The state that \<open>setValue\<close> leaves does not depend on the write to the storage.
\<close>

lemma setValue_fst:
  "fst (setValue stringify setItem key value (storedValue, st)) =
     (case value of Updater f \<Rightarrow> f storedValue | Value v \<Rightarrow> v)"
  by (simp add: setValue_def Let_def split: sum.splits SetArg.splits)

lemma addPlusOneLog_logs:
  "fst (addPlusOneLog stringify setItem clock text (logs, st)) =
     logs @ [\<lparr>entry_id = now_ms clock, entry_date = formattedDate clock, domain = text\<rparr>]"
  by (simp add: addPlusOneLog_def Let_def setValue_fst)

text \<open>
  Claim C6. For every input text that is empty after trimming, the log append
  (\<open>handleAddLog\<close>) changes nothing: the input field, the log and the storage stay as
  they were. For every input text that is not empty after trimming, the log is longer by
  exactly one entry, and the domain of the new, last entry is the input text.
\<close>

theorem log_append:
  "(trim newLog = [] \<longrightarrow>
      handleAddLog stringify setItem clock (newLog, logs, st) = (newLog, logs, st))
   \<and> (trim newLog \<noteq> [] \<longrightarrow>
      (case handleAddLog stringify setItem clock (newLog, logs, st) of
         (newLog', logs', st') \<Rightarrow>
           length logs' = length logs + 1 \<and> domain (last logs') = newLog))"
proof -
  have "length (fst (addPlusOneLog stringify setItem clock newLog (logs, st))) = length logs + 1
        \<and> domain (last (fst (addPlusOneLog stringify setItem clock newLog (logs, st)))) = newLog"
    by (simp add: addPlusOneLog_logs)
  then show ?thesis
    by (auto simp: handleAddLog_def truthy_def split: prod.splits)
qed

text \<open>
  The two texts of the specification: two spaces, and \<^verbatim>\<open>Ran 5k\<close>.
\<close>

theorem log_append_witness:
  "trim (js ''  '') = []
   \<and> handleAddLog mem_stringify mem_setItem monday (js ''  '', [older_entry], [])
       = (js ''  '', [older_entry], [])
   \<and> trim (js ''Ran 5k'') \<noteq> []
   \<and> (case handleAddLog mem_stringify mem_setItem monday (js ''Ran 5k'', [older_entry], []) of
         (newLog', logs', st') \<Rightarrow>
           length logs' = length [older_entry] + 1 \<and> domain (last logs') = js ''Ran 5k'')"
proof -
  have e: "trim (js ''  '') = []"
    by (simp add: trim_def js_def isWhiteSpace_def)
  have n: "trim (js ''Ran 5k'') \<noteq> []"
    by (simp add: trim_def js_def isWhiteSpace_def)
  show ?thesis
    using log_append [where newLog = "js ''  ''" and stringify = mem_stringify
        and setItem = mem_setItem and clock = monday and logs = "[older_entry]" and st = "[]"]
      log_append [where newLog = "js ''Ran 5k''" and stringify = mem_stringify
        and setItem = mem_setItem and clock = monday and logs = "[older_entry]" and st = "[]"] e n
    by simp
qed

text \<open>
  Claim C10. For every log and every input text that is not empty after trimming, the
  log after the append is the log before it followed by one new entry, whose domain is
  the input text as typed, untrimmed: the entries stored before keep their positions
  and their contents, and the new entry is the last.
\<close>

theorem log_append_frame:
  assumes "trim newLog \<noteq> []"
  shows "(case handleAddLog stringify setItem clock (newLog, logs, st) of
           (newLog', logs', st') \<Rightarrow>
             logs' = logs @ [\<lparr>entry_id = now_ms clock, entry_date = formattedDate clock,
                              domain = newLog\<rparr>]
             \<and> length logs' = length logs + 1
             \<and> (\<forall>i < length logs. logs' ! i = logs ! i)
             \<and> domain (logs' ! length logs) = newLog
             \<and> domain (last logs') = newLog)"
proof -
  have "fst (addPlusOneLog stringify setItem clock newLog (logs, st)) =
      logs @ [\<lparr>entry_id = now_ms clock, entry_date = formattedDate clock, domain = newLog\<rparr>]"
    by (rule addPlusOneLog_logs)
  then show ?thesis
    using assms by (auto simp: handleAddLog_def truthy_def nth_append split: prod.splits)
qed

text \<open>
  A text with a leading space and two trailing ones is stored with them.
\<close>

theorem log_append_frame_witness:
  "trim (js '' Ran 5k  '') \<noteq> []
   \<and> fst (snd (handleAddLog mem_stringify mem_setItem monday (js '' Ran 5k  '', [older_entry], [])))
       = [older_entry,
          \<lparr>entry_id = 1700000000000, entry_date = js ''Lun 6'', domain = js '' Ran 5k  ''\<rparr>]"
proof -
  have n: "trim (js '' Ran 5k  '') \<noteq> []"
    by (simp add: trim_def js_def isWhiteSpace_def)
  have d: "formattedDate monday = js ''Lun 6''"
    by code_simp
  have m: "now_ms monday = 1700000000000"
    by (simp add: monday_def)
  show ?thesis
    using log_append_frame [OF n, where stringify = mem_stringify and setItem = mem_setItem
        and clock = monday and logs = "[older_entry]" and st = "[]"] n
    by (auto simp: d m split: prod.splits)
qed

text \<open>
  Claim C8. For every key and default value, the load of the storage hook (the
  initialiser of \<open>useLocalStorage\<close>) never throws; it returns the parsed stored value when
  the key is present and its item parses (\<^verbatim>\<open>JSON.parse\<close> throws SyntaxError on the empty
  string: the hypothesis on \<open>parse\<close>), and the default when the key is missing, when the
  item does not parse and when the storage itself throws.
\<close>

theorem storage_load:
  "(\<exists>v. useLocalStorage_init getItem parse key initialValue = Inr v)
   \<and> (parse [] = Inl SyntaxError \<and> getItem key = Inr (Some item) \<and> parse item = Inr v \<longrightarrow>
        useLocalStorage_init getItem parse key initialValue = Inr v)
   \<and> (getItem key = Inr None \<longrightarrow>
        useLocalStorage_init getItem parse key initialValue = Inr initialValue)
   \<and> (getItem key = Inr (Some item) \<and> parse item = Inl e \<longrightarrow>
        useLocalStorage_init getItem parse key initialValue = Inr initialValue)
   \<and> (getItem key = Inl e \<longrightarrow>
        useLocalStorage_init getItem parse key initialValue = Inr initialValue)"
  by (auto simp: useLocalStorage_init_def try_catch_def truthy_def
      split: sum.splits option.splits)

text \<open>
  A stored empty array, a missing key and a corrupt item.
\<close>

theorem storage_load_witness:
  "mem_parse [] = Inl SyntaxError
   \<and> mem_getItem [(js ''pilot_logs'', js ''[]'')] (js ''pilot_logs'') = Inr (Some (js ''[]''))
   \<and> mem_parse (js ''[]'') = Inr []
   \<and> useLocalStorage_init (mem_getItem [(js ''pilot_logs'', js ''[]'')]) mem_parse
        (js ''pilot_logs'') [older_entry] = Inr []
   \<and> mem_getItem [] (js ''pilot_logs'') = Inr None
   \<and> useLocalStorage_init (mem_getItem []) mem_parse (js ''pilot_logs'') [older_entry]
       = Inr [older_entry]
   \<and> mem_getItem [(js ''pilot_logs'', js ''[{'')] (js ''pilot_logs'') = Inr (Some (js ''[{''))
   \<and> mem_parse (js ''[{'') = Inl SyntaxError
   \<and> useLocalStorage_init (mem_getItem [(js ''pilot_logs'', js ''[{'')]) mem_parse
        (js ''pilot_logs'') [older_entry] = Inr [older_entry]"
proof -
  have p: "mem_parse [] = Inl SyntaxError" "mem_parse (js ''[]'') = Inr []"
    "mem_parse (js ''[{'') = Inl SyntaxError"
    by (simp_all add: mem_parse_def js_def)
  have g: "mem_getItem [(js ''pilot_logs'', js ''[]'')] (js ''pilot_logs'') = Inr (Some (js ''[]''))"
    "mem_getItem [] (js ''pilot_logs'') = Inr None"
    "mem_getItem [(js ''pilot_logs'', js ''[{'')] (js ''pilot_logs'') = Inr (Some (js ''[{''))"
    by (simp_all add: mem_getItem_def)
  show ?thesis
    using storage_load [where getItem = "mem_getItem [(js ''pilot_logs'', js ''[]'')]"
        and parse = mem_parse and key = "js ''pilot_logs''" and initialValue = "[older_entry]"
        and item = "js ''[]''" and v = "[]"]
      storage_load [where getItem = "mem_getItem []" and parse = mem_parse
        and key = "js ''pilot_logs''" and initialValue = "[older_entry]"]
      storage_load [where getItem = "mem_getItem [(js ''pilot_logs'', js ''[{'')]"
        and parse = mem_parse and key = "js ''pilot_logs''" and initialValue = "[older_entry]"
        and item = "js ''[{''" and e = SyntaxError]
      p g
    by simp
qed

text \<open>
  \<open>clearLogs\<close> carries the clear out when \<^verbatim>\<open>window.confirm\<close> answers yes; declined,
  nothing is cleared and the log and the storage stay as they were.
\<close>

lemma clearLogs_declined: "clearLogs stringify setItem False s = s"
  by (simp add: clearLogs_def)

text \<open>
  Claim C9. The log clear operation, carried out on any log, empty or not, yields the
  empty log: a non-empty log is emptied, and an already empty log is left as it was,
  empty. This holds of \<open>clearLogs\<close> once confirmed and of the call
  \<^verbatim>\<open>setPlusOneLogs([])\<close> that it makes; when the write succeeds, the serialised empty
  log is what the storage receives.
\<close>

theorem log_clear:
  "fst (clearLogs stringify setItem True (logs, st)) = []
   \<and> fst (clearLogs stringify setItem True ([], st)) = fst (([] :: LogEntry list), st)
   \<and> fst (setValue stringify setItem (js ''pilot_logs'') (Value []) (logs, st)) = []
   \<and> (stringify [] = Inr payload \<and> setItem (js ''pilot_logs'') payload st = Inr st' \<longrightarrow>
        clearLogs stringify setItem True (logs, st) = ([], st'))"
  by (simp add: clearLogs_def setValue_fst) (simp add: setValue_def)

text \<open>
  A confirmed clear of a log of one entry, stored as the empty array, and of the empty log.
\<close>

theorem log_clear_witness:
  "mem_stringify [] = Inr (js ''[]'')
   \<and> mem_setItem (js ''pilot_logs'') (js ''[]'') [] = Inr [(js ''pilot_logs'', js ''[]'')]
   \<and> fst (clearLogs mem_stringify mem_setItem True ([older_entry], [])) = []
   \<and> clearLogs mem_stringify mem_setItem True ([older_entry], [])
       = ([], [(js ''pilot_logs'', js ''[]'')])
   \<and> fst (clearLogs mem_stringify mem_setItem True ([], [])) = []"
proof -
  have s: "mem_stringify [] = Inr (js ''[]'')"
    by (simp add: mem_stringify_def js_def)
  have w: "mem_setItem (js ''pilot_logs'') (js ''[]'') [] = Inr [(js ''pilot_logs'', js ''[]'')]"
    by (simp add: mem_setItem_def)
  show ?thesis
    using log_clear [where stringify = mem_stringify and setItem = mem_setItem
        and logs = "[older_entry]" and st = "[]" and payload = "js ''[]''"
        and st' = "[(js ''pilot_logs'', js ''[]'')]"] s w
    by simp
qed

end
